theory Spec2Isabelle
  imports Main
begin

section \<open>The file encryption command line tool (app.js)\<close>

text \<open>
  The program is one module: two asynchronous helpers, \<open>encryptFile\<close> and
  \<open>decryptFile\<close>, a \<open>usage\<close> printer, and top-level code that parses the command
  line (lines 47 to 62) and dispatches (lines 64 to 94). Its input is
  \<open>process.argv.slice(2)\<close>, the list of the command-line arguments.
  Three things belong to the platform and not to the module:
  \<^item> \<open>util.parseArgs\<close> of Node.js, modelled here for the configuration the module
    passes (its \<open>options\<close>, \<open>allowPositionals: true\<close>, and \<open>strict\<close> at its default
    \<open>true\<close>): the arguments are cut into tokens, and the tokens are checked and
    stored in order; the first token that fails a check throws;
  \<^item> the file system: which file each path names, the text of each file, and the
    reads and writes that fail;
  \<^item> the \<open>crypto-js\<close> library, whose four calls made by the module are the fields of
    a record of functions; each may throw.
  Every effect of a run is written down: the final file system, the exit code, and
  the list of calls made, in order.
\<close>

subsection \<open>Data\<close>

type_synonym path = string

datatype js_error =
    ENOENT path
  | EACCES path
  | SystemError string path
  | LibraryError string
  | ERR_PARSE_ARGS_UNKNOWN_OPTION string
  | ERR_PARSE_ARGS_INVALID_OPTION_VALUE string

text \<open>\<open>args.values\<close> and \<open>args\<close> as \<open>parseArgs\<close> returns them; an option that was
  not given is \<open>undefined\<close> in the source and \<open>None\<close> here.\<close>

record arg_values =
  opt_output :: "string option"
  opt_key :: "string option"

record parsed_args =
  vals :: arg_values
  positionals :: "string list"

text \<open>A path is a string, and several strings can name one file (\<open>a.txt\<close> and
  \<open>./a.txt\<close>, a relative and an absolute path, a link): \<open>resolve\<close> gives the one name
  under which the file a path names is kept in \<open>files\<close>. \<open>read_fault\<close> holds the
  paths whose read throws although the file may exist, with the error thrown;
  \<open>write_fault\<close> the paths whose write throws, with the error and, when the file
  was opened (created or truncated) before the failure, the text left in it.\<close>

record filesystem =
  resolve :: "path \<Rightarrow> path"
  files :: "path \<rightharpoonup> string"
  read_fault :: "path \<rightharpoonup> js_error"
  write_fault :: "path \<rightharpoonup> js_error \<times> string option"

text \<open>\<open>cryptoJs.AES.encrypt(data, key)\<close> returns a cipher-params object that
  \<open>toString()\<close> renders; \<open>cryptoJs.AES.decrypt(data, key)\<close> returns a word array
  that \<open>toString(cryptoJs.enc.Utf8)\<close> decodes. The random salt of one encryption
  is part of the function given for the run.\<close>

record ('c, 'w) cryptoJs =
  AES_encrypt :: "string \<Rightarrow> string \<Rightarrow> js_error + 'c"
  CipherParams_toString :: "'c \<Rightarrow> js_error + string"
  AES_decrypt :: "string \<Rightarrow> string \<Rightarrow> js_error + 'w"
  WordArray_toString_Utf8 :: "'w \<Rightarrow> js_error + string"

text \<open>The calls a run makes, as they are observed from outside. \<open>Uncaught\<close> is the
  report of an error that nothing caught, on the error stream.\<close>

datatype event =
    EncryptFile path string path
  | DecryptFile path string path
  | ReadFile path
  | AesEncrypt string string
  | AesDecrypt string string
  | WriteFile path string
  | ConsoleLog string
  | ConsoleTrace js_error
  | ConsoleError string
  | Uncaught js_error

record outcome =
  exit_code :: nat
  final_fs :: filesystem
  trace :: "event list"

subsection \<open>The command line: parseArgs\<close>

text \<open>The \<open>options\<close> object of lines 47 to 56: long name, type and short name.\<close>

definition options :: "(string \<times> string \<times> char) list" where
  "options = [(''output'', ''string'', CHR ''o''), (''key'', ''string'', CHR ''k'')]"

text \<open>A token is an option (name, name as written, value if any, and whether the
  value was written in the same argument), a positional, or the terminator \<open>--\<close>.\<close>

datatype token =
    OptionToken string string "string option" "bool option"
  | Positional string
  | OptionTerminator

text \<open>The tokeniser. An argument is, in this order of tests: the terminator \<open>--\<close>,
  after which everything is positional; a lone short option \<open>-k\<close>, which takes the
  next argument as its value when its type is \<open>string\<close> and there is a next
  argument; a group of short options \<open>-xyz\<close> whose first is not of type \<open>string\<close>,
  which is replaced by its members and read again; a short option with its value
  \<open>-kVALUE\<close>; a lone long option \<open>--key\<close>; a long option with its value
  \<open>--key=VALUE\<close>; or else a positional. \<open>arg_weight\<close> only measures the arguments
  left, for the termination of the tokeniser.\<close>

definition option_type :: "string \<Rightarrow> string option" where
  "option_type longOption = map_option fst (map_of options longOption)"

definition findLongOptionForShort :: "char \<Rightarrow> string" where
  "findLongOptionForShort shortOption =
     (case find (\<lambda>(name, ty, short). short = shortOption) options of
        Some (name, _) \<Rightarrow> name
      | None \<Rightarrow> [shortOption])"

definition isLoneShortOption :: "string \<Rightarrow> bool" where
  "isLoneShortOption arg \<longleftrightarrow>
     length arg = 2 \<and> arg ! 0 = CHR ''-'' \<and> arg ! 1 \<noteq> CHR ''-''"

definition isShortOptionGroup :: "string \<Rightarrow> bool" where
  "isShortOptionGroup arg \<longleftrightarrow>
     length arg > 2 \<and> arg ! 0 = CHR ''-'' \<and> arg ! 1 \<noteq> CHR ''-''
     \<and> option_type (findLongOptionForShort (arg ! 1)) \<noteq> Some ''string''"

definition isShortOptionAndValue :: "string \<Rightarrow> bool" where
  "isShortOptionAndValue arg \<longleftrightarrow>
     length arg > 2 \<and> arg ! 0 = CHR ''-'' \<and> arg ! 1 \<noteq> CHR ''-''
     \<and> option_type (findLongOptionForShort (arg ! 1)) = Some ''string''"

definition isLoneLongOption :: "string \<Rightarrow> bool" where
  "isLoneLongOption arg \<longleftrightarrow>
     length arg > 2 \<and> take 2 arg = ''--'' \<and> CHR ''='' \<notin> set (drop 3 arg)"

definition isLongOptionAndValue :: "string \<Rightarrow> bool" where
  "isLongOptionAndValue arg \<longleftrightarrow>
     length arg > 2 \<and> take 2 arg = ''--'' \<and> CHR ''='' \<in> set (drop 3 arg)"

fun expandGroup :: "string \<Rightarrow> string list" where
  "expandGroup [] = []"
| "expandGroup [shortOption] = [[CHR ''-'', shortOption]]"
| "expandGroup (shortOption # rest) =
     (if option_type (findLongOptionForShort shortOption) \<noteq> Some ''string''
      then [CHR ''-'', shortOption] # expandGroup rest
      else [CHR ''-'' # shortOption # rest])"

definition arg_weight :: "string \<Rightarrow> nat" where
  "arg_weight arg = (if isShortOptionGroup arg then length arg else 1)"

function argsToTokens :: "string list \<Rightarrow> token list" where
  "argsToTokens [] = []"
| "argsToTokens (arg # remainingArgs) =
     (if arg = ''--'' then OptionTerminator # map Positional remainingArgs
      else if isLoneShortOption arg then
        (let longOption = findLongOptionForShort (arg ! 1) in
         case remainingArgs of
           nextArg # afterValue \<Rightarrow>
             if option_type longOption = Some ''string''
             then OptionToken longOption arg (Some nextArg) (Some False) # argsToTokens afterValue
             else OptionToken longOption arg None None # argsToTokens remainingArgs
         | [] \<Rightarrow> [OptionToken longOption arg None None])
      else if isShortOptionGroup arg then
        argsToTokens (expandGroup (tl arg) @ remainingArgs)
      else if isShortOptionAndValue arg then
        OptionToken (findLongOptionForShort (arg ! 1)) [CHR ''-'', arg ! 1]
          (Some (drop 2 arg)) (Some True) # argsToTokens remainingArgs
      else if isLoneLongOption arg then
        (let longOption = drop 2 arg in
         case remainingArgs of
           nextArg # afterValue \<Rightarrow>
             if option_type longOption = Some ''string''
             then OptionToken longOption arg (Some nextArg) (Some False) # argsToTokens afterValue
             else OptionToken longOption arg None None # argsToTokens remainingArgs
         | [] \<Rightarrow> [OptionToken longOption arg None None])
      else if isLongOptionAndValue arg then
        (let equalIndex = length (takeWhile (\<lambda>c. c \<noteq> CHR ''='') arg);
             longOption = take (equalIndex - 2) (drop 2 arg)
         in OptionToken longOption (''--'' @ longOption)
              (Some (drop (equalIndex + 1) arg)) (Some True) # argsToTokens remainingArgs)
      else Positional arg # argsToTokens remainingArgs)"
  by pat_completeness auto
termination
proof -
  have piece: "sum_list (map arg_weight (expandGroup cs)) \<le> length cs" for cs
    by (induction cs rule: expandGroup.induct)
       (auto simp: arg_weight_def isShortOptionGroup_def)
  have weight_pos: "0 < arg_weight a" for a
    by (auto simp: arg_weight_def isShortOptionGroup_def)
  have group: "isShortOptionGroup arg \<Longrightarrow>
      sum_list (map arg_weight (expandGroup (tl arg))) < arg_weight arg" for arg
    using piece [of "tl arg"] by (auto simp: arg_weight_def isShortOptionGroup_def)
  show ?thesis
    apply (relation "measure (\<lambda>args. sum_list (map arg_weight args))")
    using weight_pos group
          apply (auto simp: less_Suc_eq_le add_pos_nonneg trans_less_add1)
    done
qed

text \<open>The checks of strict mode on an option token, and the storing of its value.
  Both options of this module are of type \<open>string\<close>, so a token that passes the
  checks carries a string.\<close>

definition isOptionLikeValue :: "string option \<Rightarrow> bool" where
  "isOptionLikeValue v =
     (case v of None \<Rightarrow> False | Some s \<Rightarrow> length s > 1 \<and> s ! 0 = CHR ''-'')"

definition checkOptionUsage :: "string \<Rightarrow> string \<Rightarrow> string option \<Rightarrow> js_error option" where
  "checkOptionUsage name rawName v =
     (case option_type name of
        None \<Rightarrow> Some (ERR_PARSE_ARGS_UNKNOWN_OPTION rawName)
      | Some ty \<Rightarrow>
          if ty = ''string'' \<and> v = None then Some (ERR_PARSE_ARGS_INVALID_OPTION_VALUE rawName)
          else if ty = ''boolean'' \<and> v \<noteq> None
            then Some (ERR_PARSE_ARGS_INVALID_OPTION_VALUE rawName)
          else None)"

definition checkOptionLikeValue :: "string \<Rightarrow> string option \<Rightarrow> bool option \<Rightarrow> js_error option" where
  "checkOptionLikeValue rawName v inlineValue =
     (if inlineValue \<noteq> Some True \<and> isOptionLikeValue v
      then Some (ERR_PARSE_ARGS_INVALID_OPTION_VALUE rawName)
      else None)"

definition storeOption :: "string \<Rightarrow> string option \<Rightarrow> arg_values \<Rightarrow> arg_values" where
  "storeOption longOption optionValue vs =
     (if longOption = ''output'' then vs\<lparr>opt_output := optionValue\<rparr>
      else if longOption = ''key'' then vs\<lparr>opt_key := optionValue\<rparr>
      else vs)"

fun parse_tokens :: "token list \<Rightarrow> parsed_args \<Rightarrow> js_error + parsed_args" where
  "parse_tokens [] result = Inr result"
| "parse_tokens (OptionToken name rawName v inlineValue # tokens) result =
     (case checkOptionUsage name rawName v of
        Some e \<Rightarrow> Inl e
      | None \<Rightarrow>
          (case checkOptionLikeValue rawName v inlineValue of
             Some e \<Rightarrow> Inl e
           | None \<Rightarrow> parse_tokens tokens (result\<lparr>vals := storeOption name v (vals result)\<rparr>)))"
| "parse_tokens (Positional v # tokens) result =
     parse_tokens tokens (result\<lparr>positionals := positionals result @ [v]\<rparr>)"
| "parse_tokens (OptionTerminator # tokens) result = parse_tokens tokens result"

definition parseArgs :: "string list \<Rightarrow> js_error + parsed_args" where
  "parseArgs argv =
     parse_tokens (argsToTokens argv)
       \<lparr>vals = \<lparr>opt_output = None, opt_key = None\<rparr>, positionals = []\<rparr>"

text \<open>The positional arguments of a command line are its positional tokens, whether or
  not the options around them pass the checks.\<close>

fun token_positionals :: "token list \<Rightarrow> string list" where
  "token_positionals [] = []"
| "token_positionals (Positional v # tokens) = v # token_positionals tokens"
| "token_positionals (_ # tokens) = token_positionals tokens"

definition argv_positionals :: "string list \<Rightarrow> string list" where
  "argv_positionals argv = token_positionals (argsToTokens argv)"

subsection \<open>File access\<close>

text \<open>\<open>fs_failed_write\<close> is the file system a write that throws leaves behind.\<close>

definition fs_readFile :: "filesystem \<Rightarrow> path \<Rightarrow> js_error + string" where
  "fs_readFile fs p =
     (case read_fault fs p of
        Some e \<Rightarrow> Inl e
      | None \<Rightarrow> (case files fs (resolve fs p) of None \<Rightarrow> Inl (ENOENT p) | Some d \<Rightarrow> Inr d))"

definition fs_writeFile :: "filesystem \<Rightarrow> path \<Rightarrow> string \<Rightarrow> js_error + filesystem" where
  "fs_writeFile fs p d =
     (case write_fault fs p of
        Some (e, _) \<Rightarrow> Inl e
      | None \<Rightarrow> Inr (fs\<lparr>files := (files fs)(resolve fs p \<mapsto> d)\<rparr>))"

definition fs_failed_write :: "filesystem \<Rightarrow> path \<Rightarrow> filesystem" where
  "fs_failed_write fs p =
     (case write_fault fs p of
        Some (_, Some left) \<Rightarrow> fs\<lparr>files := (files fs)(resolve fs p \<mapsto> left)\<rparr>
      | _ \<Rightarrow> fs)"

subsection \<open>The cipher transform\<close>

text \<open>The two expressions the script builds from the library:
  \<open>cryptoJs.AES.encrypt(inputFileData, key).toString()\<close> (line 15) and
  \<open>cryptoJs.AES.decrypt(inputFileData, key)\<close> followed by
  \<open>decryptedData.toString(cryptoJs.enc.Utf8)\<close> (lines 28 and 29). A throw of the
  first call skips the second.\<close>

definition encrypt_text :: "('c, 'w) cryptoJs \<Rightarrow> string \<Rightarrow> string \<Rightarrow> js_error + string" where
  "encrypt_text lib inputFileData k =
     (case AES_encrypt lib inputFileData k of
        Inl e \<Rightarrow> Inl e
      | Inr c \<Rightarrow> CipherParams_toString lib c)"

definition decrypt_text :: "('c, 'w) cryptoJs \<Rightarrow> string \<Rightarrow> string \<Rightarrow> js_error + string" where
  "decrypt_text lib inputFileData k =
     (case AES_decrypt lib inputFileData k of
        Inl e \<Rightarrow> Inl e
      | Inr decryptedData \<Rightarrow> WordArray_toString_Utf8 lib decryptedData)"

subsection \<open>encryptFile and decryptFile\<close>

text \<open>Each helper awaits the read, then transforms, then awaits the write; a throw
  at any step leaves the function at once. The arguments of \<open>writeFile\<close> are
  evaluated before it is called, so in \<open>decryptFile\<close> a throw of \<open>toString\<close> comes
  before the write. The result is what was thrown (or nothing), the file system
  afterwards, and the calls made. A write that throws may have emptied the file.\<close>

definition encryptFile ::
  "('c, 'w) cryptoJs \<Rightarrow> filesystem \<Rightarrow> path \<Rightarrow> string \<Rightarrow> path
     \<Rightarrow> (js_error + unit) \<times> filesystem \<times> event list" where
  "encryptFile lib fs inputFilePath k outputFilePath =
     (let called = [EncryptFile inputFilePath k outputFilePath, ReadFile inputFilePath] in
      case fs_readFile fs inputFilePath of
        Inl e \<Rightarrow> (Inl e, fs, called)
      | Inr inputFileData \<Rightarrow>
          (let called = called @ [AesEncrypt inputFileData k] in
           case encrypt_text lib inputFileData k of
             Inl e \<Rightarrow> (Inl e, fs, called)
           | Inr encryptedData \<Rightarrow>
               (let called = called @ [WriteFile outputFilePath encryptedData] in
                case fs_writeFile fs outputFilePath encryptedData of
                  Inl e \<Rightarrow> (Inl e, fs_failed_write fs outputFilePath, called)
                | Inr fs' \<Rightarrow> (Inr (), fs', called))))"

definition decryptFile ::
  "('c, 'w) cryptoJs \<Rightarrow> filesystem \<Rightarrow> path \<Rightarrow> string \<Rightarrow> path
     \<Rightarrow> (js_error + unit) \<times> filesystem \<times> event list" where
  "decryptFile lib fs inputFilePath k outputFilePath =
     (let called = [DecryptFile inputFilePath k outputFilePath, ReadFile inputFilePath] in
      case fs_readFile fs inputFilePath of
        Inl e \<Rightarrow> (Inl e, fs, called)
      | Inr inputFileData \<Rightarrow>
          (let called = called @ [AesDecrypt inputFileData k] in
           case decrypt_text lib inputFileData k of
             Inl e \<Rightarrow> (Inl e, fs, called)
           | Inr decryptedText \<Rightarrow>
               (let called = called @ [WriteFile outputFilePath decryptedText] in
                case fs_writeFile fs outputFilePath decryptedText of
                  Inl e \<Rightarrow> (Inl e, fs_failed_write fs outputFilePath, called)
                | Inr fs' \<Rightarrow> (Inr (), fs', called))))"

subsection \<open>usage\<close>

definition is_whitespace :: "char \<Rightarrow> bool" where
  "is_whitespace c \<longleftrightarrow> c \<in> set [CHR 0x09, CHR 0x0A, CHR 0x0B, CHR 0x0C, CHR 0x0D, CHR '' '']"

definition trim :: "string \<Rightarrow> string" where
  "trim s = rev (dropWhile is_whitespace (rev (dropWhile is_whitespace s)))"

definition usage_template :: string where
  "usage_template =
     ''\<newline>Usage: npm start encrypt|decrypt <input file> -- [options]\<newline>\<newline>Options:\<newline>    -o, --output <output file> Defaults to input file name with .enc extension if encrypt is used, otherwise defaults to input file name with .txt extension if decrypt is used.\<newline>    -k, --key <encryption key> Defaults to 'mySecretKey' key.\<newline>    ''"

definition usage :: "event list" where
  "usage = [ConsoleLog (trim usage_template)]"

subsection \<open>The dispatcher\<close>

text \<open>The constants the script binds once the positional count has been checked
  (lines 69 to 71), and the output path each branch binds (lines 74 and 83).
  \<open>a ?? b\<close> is \<open>b\<close> only when \<open>a\<close> is \<open>undefined\<close> or \<open>null\<close>; an empty string given
  on the command line is kept.\<close>

definition action :: "parsed_args \<Rightarrow> string" where
  "action args = positionals args ! 0"

definition inputFilePath :: "parsed_args \<Rightarrow> path" where
  "inputFilePath args = positionals args ! 1"

definition encryptionKey :: "parsed_args \<Rightarrow> string" where
  "encryptionKey args = (case opt_key (vals args) of None \<Rightarrow> ''mySecretKey'' | Some k \<Rightarrow> k)"

definition outputFilePath_encrypt :: "parsed_args \<Rightarrow> path" where
  "outputFilePath_encrypt args =
     (case opt_output (vals args) of None \<Rightarrow> inputFilePath args @ ''.enc'' | Some p \<Rightarrow> p)"

definition outputFilePath_decrypt :: "parsed_args \<Rightarrow> path" where
  "outputFilePath_decrypt args =
     (case opt_output (vals args) of None \<Rightarrow> inputFilePath args @ ''.txt'' | Some p \<Rightarrow> p)"

text \<open>\<open>main\<close> is the module from line 64 on, run on the value \<open>args\<close> that
  \<open>parseArgs\<close> returned. \<open>process.exit(1)\<close> ends the run at once; a run that reaches
  the end of the module ends with exit code 0, also after a caught error.\<close>

definition main :: "('c, 'w) cryptoJs \<Rightarrow> filesystem \<Rightarrow> parsed_args \<Rightarrow> outcome" where
  "main lib fs args =
     (if length (positionals args) \<noteq> 2
      then \<lparr>exit_code = 1, final_fs = fs, trace = usage\<rparr>
      else if action args = ''encrypt'' then
        (case encryptFile lib fs (inputFilePath args) (encryptionKey args)
                (outputFilePath_encrypt args) of
           (Inr _, fs', called) \<Rightarrow>
             \<lparr>exit_code = 0, final_fs = fs',
              trace = called @
                [ConsoleLog (''Successfully encrypted '' @ inputFilePath args
                   @ '', and saved to '' @ outputFilePath_encrypt args @ ''.'')]\<rparr>
         | (Inl error, fs', called) \<Rightarrow>
             \<lparr>exit_code = 0, final_fs = fs',
              trace = called @
                [ConsoleTrace error,
                 ConsoleError (''Failed to encrypt '' @ inputFilePath args @ ''.'')]\<rparr>)
      else if action args = ''decrypt'' then
        (case decryptFile lib fs (inputFilePath args) (encryptionKey args)
                (outputFilePath_decrypt args) of
           (Inr _, fs', called) \<Rightarrow>
             \<lparr>exit_code = 0, final_fs = fs',
              trace = called @
                [ConsoleLog (''Successfully decrypted '' @ inputFilePath args
                   @ '', and saved to '' @ outputFilePath_decrypt args @ ''.'')]\<rparr>
         | (Inl error, fs', called) \<Rightarrow>
             \<lparr>exit_code = 0, final_fs = fs',
              trace = called @
                [ConsoleTrace error,
                 ConsoleError (''Failed to decrypt '' @ inputFilePath args @ ''.'')]\<rparr>)
      else
        \<lparr>exit_code = 0, final_fs = fs,
         trace = ConsoleLog (''Unknown action: '' @ action args @ ''.'') # usage\<rparr>)"

text \<open>The whole module. The call of \<open>parseArgs\<close> (lines 58 to 62) stands at top level,
  outside both \<open>try\<close> blocks: when it throws, nothing of the module runs after it,
  the error is reported on the error stream and the process ends with exit code 1.\<close>

definition app :: "('c, 'w) cryptoJs \<Rightarrow> filesystem \<Rightarrow> string list \<Rightarrow> outcome" where
  "app lib fs argv =
     (case parseArgs argv of
        Inl e \<Rightarrow> \<lparr>exit_code = 1, final_fs = fs, trace = [Uncaught e]\<rparr>
      | Inr args \<Rightarrow> main lib fs args)"

subsection \<open>Observations on a trace\<close>

text \<open>An operation is one call of \<open>encryptFile\<close> or of \<open>decryptFile\<close>.\<close>

fun is_operation :: "event \<Rightarrow> bool" where
  "is_operation (EncryptFile _ _ _) = True"
| "is_operation (DecryptFile _ _ _) = True"
| "is_operation _ = False"

fun is_write :: "event \<Rightarrow> bool" where
  "is_write (WriteFile _ _) = True"
| "is_write _ = False"

fun is_file_access :: "event \<Rightarrow> bool" where
  "is_file_access (ReadFile _) = True"
| "is_file_access (WriteFile _ _) = True"
| "is_file_access _ = False"

text \<open>What a run prints on standard output: the lines of \<open>console.log\<close>.\<close>

fun stdout :: "event list \<Rightarrow> string list" where
  "stdout [] = []"
| "stdout (ConsoleLog s # evs) = s # stdout evs"
| "stdout (_ # evs) = stdout evs"

subsection \<open>A stand-in library and store for running the model\<close>

text \<open>The examples below need some library to run against. This one is not AES: it
  prefixes the key, and refuses a text that does not start with the key given.
  In the store, a path with \<open>./\<close> in front names the same file as the path without;
  a write at \<open>ro.txt\<close> is refused, and a write at \<open>full.txt\<close> fails after the file was
  emptied.\<close>

definition stub_lib :: "(string, string) cryptoJs" where
  "stub_lib =
     \<lparr>AES_encrypt = (\<lambda>d k. Inr (k @ d)),
      CipherParams_toString = Inr,
      AES_decrypt = (\<lambda>d k. if take (length k) d = k then Inr (drop (length k) d)
                            else Inl (LibraryError ''Malformed UTF-8 data'')),
      WordArray_toString_Utf8 = Inr\<rparr>"

definition stub_resolve :: "path \<Rightarrow> path" where
  "stub_resolve p = (if take 2 p = ''./'' then drop 2 p else p)"

definition stub_fs :: filesystem where
  "stub_fs =
     \<lparr>resolve = stub_resolve,
      files = [''a.txt'' \<mapsto> ''hello'', ''a.enc'' \<mapsto> ''mySecretKeyhello'', ''b.enc'' \<mapsto> ''junk''],
      read_fault = Map.empty,
      write_fault = [''ro.txt'' \<mapsto> (EACCES ''ro.txt'', None),
                     ''full.txt'' \<mapsto> (SystemError ''ENOSPC'' ''full.txt'', Some [])]\<rparr>"

definition cli :: "string list \<Rightarrow> string option \<Rightarrow> string option \<Rightarrow> parsed_args" where
  "cli ps out k = \<lparr>vals = \<lparr>opt_output = out, opt_key = k\<rparr>, positionals = ps\<rparr>"

section \<open>Properties\<close>

subsection \<open>The usage text\<close>

lemma usage_text:
  "usage = [ConsoleLog ''Usage: npm start encrypt|decrypt <input file> -- [options]\<newline>\<newline>Options:\<newline>    -o, --output <output file> Defaults to input file name with .enc extension if encrypt is used, otherwise defaults to input file name with .txt extension if decrypt is used.\<newline>    -k, --key <encryption key> Defaults to 'mySecretKey' key.'']"
  by (simp add: usage_def trim_def usage_template_def is_whitespace_def)

subsection \<open>What the two helpers do\<close>

text \<open>
  Each helper is entered once, reads only its input path, asks the library only for
  its own transform and only with the key it was given, and writes, if at all, only
  at its output path: no file but the one the output path names can change.
\<close>

lemma encryptFile_operations:
  "filter is_operation (snd (snd (encryptFile lib fs inp k out))) = [EncryptFile inp k out]"
  by (simp add: encryptFile_def Let_def split: sum.splits)

lemma decryptFile_operations:
  "filter is_operation (snd (snd (decryptFile lib fs inp k out))) = [DecryptFile inp k out]"
  by (simp add: decryptFile_def Let_def split: sum.splits)

lemma encryptFile_events:
  "ev \<in> set (snd (snd (encryptFile lib fs inp k out))) \<Longrightarrow>
     ev = EncryptFile inp k out \<or> ev = ReadFile inp
     \<or> (\<exists>d. ev = AesEncrypt d k) \<or> (\<exists>d. ev = WriteFile out d)"
  by (auto simp: encryptFile_def Let_def split: sum.splits)

lemma decryptFile_events:
  "ev \<in> set (snd (snd (decryptFile lib fs inp k out))) \<Longrightarrow>
     ev = DecryptFile inp k out \<or> ev = ReadFile inp
     \<or> (\<exists>d. ev = AesDecrypt d k) \<or> (\<exists>d. ev = WriteFile out d)"
  by (auto simp: decryptFile_def Let_def split: sum.splits)

lemma encryptFile_first:
  "\<exists>rest. snd (snd (encryptFile lib fs inp k out)) = EncryptFile inp k out # rest"
  by (simp add: encryptFile_def Let_def split: sum.splits)

lemma decryptFile_first:
  "\<exists>rest. snd (snd (decryptFile lib fs inp k out)) = DecryptFile inp k out # rest"
  by (simp add: decryptFile_def Let_def split: sum.splits)

lemma fs_writeFile_frame:
  "fs_writeFile fs out d = Inr fs' \<Longrightarrow>
     (\<forall>q. q \<noteq> resolve fs out \<longrightarrow> files fs' q = files fs q)
     \<and> files fs' (resolve fs out) = Some d
     \<and> resolve fs' = resolve fs \<and> read_fault fs' = read_fault fs
     \<and> write_fault fs' = write_fault fs"
  by (auto simp: fs_writeFile_def split: option.splits)

lemma fs_failed_write_frame:
  "(\<forall>q. q \<noteq> resolve fs out \<longrightarrow> files (fs_failed_write fs out) q = files fs q)
   \<and> resolve (fs_failed_write fs out) = resolve fs
   \<and> read_fault (fs_failed_write fs out) = read_fault fs
   \<and> write_fault (fs_failed_write fs out) = write_fault fs"
  by (auto simp: fs_failed_write_def split: option.splits)

lemma fs_readFile_same:
  "resolve fs' = resolve fs \<Longrightarrow> read_fault fs' = read_fault fs \<Longrightarrow>
   files fs' (resolve fs p) = files fs (resolve fs p) \<Longrightarrow>
     fs_readFile fs' p = fs_readFile fs p"
  by (simp add: fs_readFile_def cong: option.case_cong)

lemma encryptFile_frame:
  "encryptFile lib fs inp k out = (r, fs', called) \<Longrightarrow>
     (\<forall>q. q \<noteq> resolve fs out \<longrightarrow> files fs' q = files fs q)
     \<and> resolve fs' = resolve fs \<and> read_fault fs' = read_fault fs
     \<and> write_fault fs' = write_fault fs"
  using fs_failed_write_frame [of fs out]
  by (auto simp: encryptFile_def Let_def split: sum.splits dest: fs_writeFile_frame)

lemma decryptFile_frame:
  "decryptFile lib fs inp k out = (r, fs', called) \<Longrightarrow>
     (\<forall>q. q \<noteq> resolve fs out \<longrightarrow> files fs' q = files fs q)
     \<and> resolve fs' = resolve fs \<and> read_fault fs' = read_fault fs
     \<and> write_fault fs' = write_fault fs"
  using fs_failed_write_frame [of fs out]
  by (auto simp: decryptFile_def Let_def split: sum.splits dest: fs_writeFile_frame)

lemma main_encrypt:
  "positionals args = [''encrypt'', inp] \<Longrightarrow>
   encryptFile lib fs inp (encryptionKey args) (outputFilePath_encrypt args) = (r, fs', called) \<Longrightarrow>
     main lib fs args =
       \<lparr>exit_code = 0, final_fs = fs',
        trace = called @
          (case r of
             Inr _ \<Rightarrow> [ConsoleLog (''Successfully encrypted '' @ inp @ '', and saved to ''
                                   @ outputFilePath_encrypt args @ ''.'')]
           | Inl e \<Rightarrow> [ConsoleTrace e, ConsoleError (''Failed to encrypt '' @ inp @ ''.'')])\<rparr>"
  by (simp add: main_def action_def inputFilePath_def split: sum.splits)

lemma main_decrypt:
  "positionals args = [''decrypt'', inp] \<Longrightarrow>
   decryptFile lib fs inp (encryptionKey args) (outputFilePath_decrypt args) = (r, fs', called) \<Longrightarrow>
     main lib fs args =
       \<lparr>exit_code = 0, final_fs = fs',
        trace = called @
          (case r of
             Inr _ \<Rightarrow> [ConsoleLog (''Successfully decrypted '' @ inp @ '', and saved to ''
                                   @ outputFilePath_decrypt args @ ''.'')]
           | Inl e \<Rightarrow> [ConsoleTrace e, ConsoleError (''Failed to decrypt '' @ inp @ ''.'')])\<rparr>"
  by (simp add: main_def action_def inputFilePath_def split: sum.splits)

subsection \<open>What the dispatcher does\<close>

lemma main_encrypt_trace:
  "positionals args = [''encrypt'', inp] \<Longrightarrow>
     \<exists>tail. trace (main lib fs args) =
       snd (snd (encryptFile lib fs inp (encryptionKey args) (outputFilePath_encrypt args))) @ tail
       \<and> (\<forall>ev \<in> set tail. \<not> is_operation ev \<and> \<not> is_file_access ev
             \<and> (\<forall>d k. ev \<noteq> AesEncrypt d k \<and> ev \<noteq> AesDecrypt d k))"
  by (cases "encryptFile lib fs inp (encryptionKey args) (outputFilePath_encrypt args)")
     (auto simp: main_encrypt split: sum.splits)

lemma main_decrypt_trace:
  "positionals args = [''decrypt'', inp] \<Longrightarrow>
     \<exists>tail. trace (main lib fs args) =
       snd (snd (decryptFile lib fs inp (encryptionKey args) (outputFilePath_decrypt args))) @ tail
       \<and> (\<forall>ev \<in> set tail. \<not> is_operation ev \<and> \<not> is_file_access ev
             \<and> (\<forall>d k. ev \<noteq> AesEncrypt d k \<and> ev \<noteq> AesDecrypt d k))"
  by (cases "decryptFile lib fs inp (encryptionKey args) (outputFilePath_decrypt args)")
     (auto simp: main_decrypt split: sum.splits)

lemma main_operations:
  "filter is_operation (trace (main lib fs args)) =
     (if length (positionals args) \<noteq> 2 then []
      else if action args = ''encrypt''
        then [EncryptFile (inputFilePath args) (encryptionKey args) (outputFilePath_encrypt args)]
      else if action args = ''decrypt''
        then [DecryptFile (inputFilePath args) (encryptionKey args) (outputFilePath_decrypt args)]
      else [])"
  using encryptFile_operations
          [of lib fs "inputFilePath args" "encryptionKey args" "outputFilePath_encrypt args"]
        decryptFile_operations
          [of lib fs "inputFilePath args" "encryptionKey args" "outputFilePath_decrypt args"]
  by (auto simp: main_def usage_def split: prod.splits sum.splits)

lemma main_events:
  "ev \<in> set (trace (main lib fs args)) \<Longrightarrow>
     (\<exists>s. ev = ConsoleLog s) \<or> (\<exists>e. ev = ConsoleTrace e) \<or> (\<exists>s. ev = ConsoleError s)
     \<or> (length (positionals args) = 2 \<and> action args = ''encrypt'' \<and>
           ev \<in> set (snd (snd (encryptFile lib fs (inputFilePath args) (encryptionKey args)
                                  (outputFilePath_encrypt args)))))
     \<or> (length (positionals args) = 2 \<and> action args = ''decrypt'' \<and>
           ev \<in> set (snd (snd (decryptFile lib fs (inputFilePath args) (encryptionKey args)
                                  (outputFilePath_decrypt args)))))"
  by (auto simp: main_def usage_def split: if_splits prod.splits sum.splits)

lemma main_final_fs:
  "final_fs (main lib fs args) =
     (if length (positionals args) \<noteq> 2 then fs
      else if action args = ''encrypt''
        then fst (snd (encryptFile lib fs (inputFilePath args) (encryptionKey args)
                         (outputFilePath_encrypt args)))
      else if action args = ''decrypt''
        then fst (snd (decryptFile lib fs (inputFilePath args) (encryptionKey args)
                         (outputFilePath_decrypt args)))
      else fs)"
  by (auto simp: main_def split: prod.splits sum.splits)

lemma cli_simps:
  "positionals (cli ps out k) = ps" "opt_output (vals (cli ps out k)) = out"
  "opt_key (vals (cli ps out k)) = k"
  by (simp_all add: cli_def)

subsection \<open>The command line\<close>

text \<open>When the options pass the checks, the positionals returned are the positional
  tokens of the command line, and the module goes on at line 64; when they do not,
  the error is uncaught.\<close>

lemma parse_tokens_positionals:
  "parse_tokens tokens result = Inr args \<Longrightarrow>
     positionals args = positionals result @ token_positionals tokens"
  by (induction tokens result rule: parse_tokens.induct) (auto split: option.splits)

lemma parseArgs_positionals:
  "parseArgs argv = Inr args \<Longrightarrow> positionals args = argv_positionals argv"
  using parse_tokens_positionals [of "argsToTokens argv" _ args]
  by (simp add: parseArgs_def argv_positionals_def)

lemma app_parsed:
  "parseArgs argv = Inr args \<Longrightarrow> app lib fs argv = main lib fs args"
  by (simp add: app_def)

lemma app_uncaught:
  "parseArgs argv = Inl e \<Longrightarrow>
     app lib fs argv = \<lparr>exit_code = 1, final_fs = fs, trace = [Uncaught e]\<rparr>"
  by (simp add: app_def)

subsection \<open>Argument validation\<close>

text \<open>
  Claim C4. In every run whose options pass the checks of \<open>parseArgs\<close> and whose
  number of positional arguments is not exactly 2, the module prints the usage
  text on standard output, does nothing else, and ends with exit code 1.
\<close>

theorem wrong_positional_count_usage_exit_1:
  "parseArgs argv = Inr args \<Longrightarrow> length (argv_positionals argv) \<noteq> 2 \<Longrightarrow>
     app lib fs argv = \<lparr>exit_code = 1, final_fs = fs, trace = usage\<rparr>
     \<and> stdout (trace (app lib fs argv)) = [trim usage_template]"
  using parseArgs_positionals [of argv args]
  by (simp add: app_def main_def usage_def)

text \<open>
  With three, one and no positional argument; the second has a key option.
\<close>

theorem wrong_positional_count_witness:
  "parseArgs [''encrypt'', ''a.txt'', ''b.txt''] = Inr (cli [''encrypt'', ''a.txt'', ''b.txt''] None None)
   \<and> length (argv_positionals [''encrypt'', ''a.txt'', ''b.txt'']) = 3
   \<and> app stub_lib stub_fs [''encrypt'', ''a.txt'', ''b.txt'']
       = \<lparr>exit_code = 1, final_fs = stub_fs, trace = usage\<rparr>
   \<and> app stub_lib stub_fs [''encrypt'', ''-k'', ''pw'']
       = \<lparr>exit_code = 1, final_fs = stub_fs, trace = usage\<rparr>
   \<and> app stub_lib stub_fs []
       = \<lparr>exit_code = 1, final_fs = stub_fs, trace = usage\<rparr>"
proof -
  have p3: "parseArgs [''encrypt'', ''a.txt'', ''b.txt'']
              = Inr (cli [''encrypt'', ''a.txt'', ''b.txt''] None None)"
    by code_simp
  have n3: "length (argv_positionals [''encrypt'', ''a.txt'', ''b.txt'']) = 3"
    by code_simp
  have p1: "parseArgs [''encrypt'', ''-k'', ''pw''] = Inr (cli [''encrypt''] None (Some ''pw''))"
    by code_simp
  have n1: "length (argv_positionals [''encrypt'', ''-k'', ''pw'']) = 1"
    by code_simp
  have p0: "parseArgs [] = Inr (cli [] None None)"
    by code_simp
  have n0: "length (argv_positionals []) = 0"
    by code_simp
  show ?thesis
    using p3 n3
      wrong_positional_count_usage_exit_1 [OF p3, of stub_lib stub_fs]
      wrong_positional_count_usage_exit_1 [OF p1, of stub_lib stub_fs]
      wrong_positional_count_usage_exit_1 [OF p0, of stub_lib stub_fs]
    by (simp add: n1 n0)
qed

text \<open>
  The condition on the options is needed. \<open>--bogus\<close> has no positional argument and
  \<open>encrypt -k\<close> has one, but \<open>parseArgs\<close> throws on the unknown option and on the
  option without its value before line 64: nothing is printed on standard output,
  and the exit code 1 is that of the uncaught error.
\<close>

theorem bad_option_prints_no_usage:
  "length (argv_positionals [''--bogus'']) = 0
   \<and> app stub_lib stub_fs [''--bogus''] =
       \<lparr>exit_code = 1, final_fs = stub_fs,
        trace = [Uncaught (ERR_PARSE_ARGS_UNKNOWN_OPTION ''--bogus'')]\<rparr>
   \<and> stdout (trace (app stub_lib stub_fs [''--bogus''])) = []
   \<and> length (argv_positionals [''encrypt'', ''-k'']) = 1
   \<and> app stub_lib stub_fs [''encrypt'', ''-k''] =
       \<lparr>exit_code = 1, final_fs = stub_fs,
        trace = [Uncaught (ERR_PARSE_ARGS_INVALID_OPTION_VALUE ''-k'')]\<rparr>
   \<and> stdout (trace (app stub_lib stub_fs [''encrypt'', ''-k''])) = []"
proof -
  have n0: "length (argv_positionals [''--bogus'']) = 0" by code_simp
  have p0: "parseArgs [''--bogus''] = Inl (ERR_PARSE_ARGS_UNKNOWN_OPTION ''--bogus'')"
    by code_simp
  have n1: "length (argv_positionals [''encrypt'', ''-k'']) = 1" by code_simp
  have p1: "parseArgs [''encrypt'', ''-k''] = Inl (ERR_PARSE_ARGS_INVALID_OPTION_VALUE ''-k'')"
    by code_simp
  show ?thesis
    using n0 n1 by (simp add: app_def p0 p1)
qed

subsection \<open>Unknown action\<close>

text \<open>
  Claim C7. In every run whose options pass the checks of \<open>parseArgs\<close>, with
  exactly two positional arguments whose first, the action, is neither \<open>encrypt\<close>
  nor \<open>decrypt\<close>, the module prints \<open>Unknown action: <action>.\<close> and then the usage
  text, calls neither helper, reads and writes no file, leaves the store as it
  was, and ends with exit code 0.
\<close>

theorem unknown_action_no_file_access:
  assumes "parseArgs argv = Inr args" and "argv_positionals argv = [act, inp]"
    and "act \<noteq> ''encrypt''" and "act \<noteq> ''decrypt''"
  shows
    "app lib fs argv =
       \<lparr>exit_code = 0, final_fs = fs,
        trace = ConsoleLog (''Unknown action: '' @ act @ ''.'') # usage\<rparr>
     \<and> (\<forall>ev \<in> set (trace (app lib fs argv)). \<not> is_file_access ev \<and> \<not> is_operation ev)"
  using assms parseArgs_positionals [of argv args]
  by (simp add: app_def main_def action_def usage_def)

text \<open>
  With the action \<open>foo\<close>.
\<close>

theorem unknown_action_witness:
  "parseArgs [''foo'', ''a.txt''] = Inr (cli [''foo'', ''a.txt''] None None)
   \<and> argv_positionals [''foo'', ''a.txt''] = [''foo'', ''a.txt'']
   \<and> app stub_lib stub_fs [''foo'', ''a.txt''] =
       \<lparr>exit_code = 0, final_fs = stub_fs,
        trace = ConsoleLog ''Unknown action: foo.'' # usage\<rparr>"
proof -
  have p: "parseArgs [''foo'', ''a.txt''] = Inr (cli [''foo'', ''a.txt''] None None)"
    by code_simp
  have n: "argv_positionals [''foo'', ''a.txt''] = [''foo'', ''a.txt'']"
    by code_simp
  show ?thesis
    using p n unknown_action_no_file_access [OF p n, of stub_lib stub_fs]
    by simp
qed

text \<open>
  The condition on the options is needed here too. \<open>foo a.txt --bogus\<close> has the two
  positional arguments \<open>foo\<close> and \<open>a.txt\<close>, but the unknown option makes
  \<open>parseArgs\<close> throw: no \<open>Unknown action\<close> line, nothing on standard output, and
  exit code 1.
\<close>

theorem unknown_action_bad_option_no_message:
  "argv_positionals [''foo'', ''a.txt'', ''--bogus''] = [''foo'', ''a.txt'']
   \<and> app stub_lib stub_fs [''foo'', ''a.txt'', ''--bogus''] =
       \<lparr>exit_code = 1, final_fs = stub_fs,
        trace = [Uncaught (ERR_PARSE_ARGS_UNKNOWN_OPTION ''--bogus'')]\<rparr>
   \<and> stdout (trace (app stub_lib stub_fs [''foo'', ''a.txt'', ''--bogus''])) = []
   \<and> exit_code (app stub_lib stub_fs [''foo'', ''a.txt'', ''--bogus'']) \<noteq> 0"
proof -
  have n: "argv_positionals [''foo'', ''a.txt'', ''--bogus''] = [''foo'', ''a.txt'']"
    by code_simp
  have p: "parseArgs [''foo'', ''a.txt'', ''--bogus'']
             = Inl (ERR_PARSE_ARGS_UNKNOWN_OPTION ''--bogus'')"
    by code_simp
  show ?thesis
    using n by (simp add: app_def p)
qed

subsection \<open>Defaults\<close>

text \<open>
  Claim C5. When no output option is given, \<open>encryptFile\<close> is called with the
  input path followed by \<open>.enc\<close> as its output path, and \<open>decryptFile\<close> with the
  input path followed by \<open>.txt\<close>; every write of the run is at that path.
\<close>

theorem default_output_path:
  assumes "opt_output (vals args) = None" and "positionals args = [act, inp]"
  shows
    "(act = ''encrypt'' \<longrightarrow>
        (\<exists>rest. trace (main lib fs args) =
           EncryptFile inp (encryptionKey args) (inp @ ''.enc'') # rest)
        \<and> (\<forall>p d. WriteFile p d \<in> set (trace (main lib fs args)) \<longrightarrow> p = inp @ ''.enc''))
     \<and> (act = ''decrypt'' \<longrightarrow>
        (\<exists>rest. trace (main lib fs args) =
           DecryptFile inp (encryptionKey args) (inp @ ''.txt'') # rest)
        \<and> (\<forall>p d. WriteFile p d \<in> set (trace (main lib fs args)) \<longrightarrow> p = inp @ ''.txt''))"
proof (intro conjI impI)
  assume act: "act = ''encrypt''"
  have out: "outputFilePath_encrypt args = inp @ ''.enc''"
    using assms by (simp add: outputFilePath_encrypt_def inputFilePath_def)
  from assms(2) act obtain tail where
    tr: "trace (main lib fs args) =
           snd (snd (encryptFile lib fs inp (encryptionKey args) (inp @ ''.enc''))) @ tail"
    and tail: "\<forall>ev \<in> set tail. \<not> is_file_access ev"
    using main_encrypt_trace [of args inp lib fs] out by auto
  show "\<exists>rest. trace (main lib fs args) =
          EncryptFile inp (encryptionKey args) (inp @ ''.enc'') # rest"
    using tr encryptFile_first [of lib fs inp "encryptionKey args" "inp @ ''.enc''"] by auto
  show "\<forall>p d. WriteFile p d \<in> set (trace (main lib fs args)) \<longrightarrow> p = inp @ ''.enc''"
    using tr tail encryptFile_events [of _ lib fs inp "encryptionKey args" "inp @ ''.enc''"]
    by fastforce
next
  assume act: "act = ''decrypt''"
  have out: "outputFilePath_decrypt args = inp @ ''.txt''"
    using assms by (simp add: outputFilePath_decrypt_def inputFilePath_def)
  from assms(2) act obtain tail where
    tr: "trace (main lib fs args) =
           snd (snd (decryptFile lib fs inp (encryptionKey args) (inp @ ''.txt''))) @ tail"
    and tail: "\<forall>ev \<in> set tail. \<not> is_file_access ev"
    using main_decrypt_trace [of args inp lib fs] out by auto
  show "\<exists>rest. trace (main lib fs args) =
          DecryptFile inp (encryptionKey args) (inp @ ''.txt'') # rest"
    using tr decryptFile_first [of lib fs inp "encryptionKey args" "inp @ ''.txt''"] by auto
  show "\<forall>p d. WriteFile p d \<in> set (trace (main lib fs args)) \<longrightarrow> p = inp @ ''.txt''"
    using tr tail decryptFile_events [of _ lib fs inp "encryptionKey args" "inp @ ''.txt''"]
    by fastforce
qed

text \<open>
  \<open>a.txt\<close> is encrypted to \<open>a.txt.enc\<close> and \<open>a.enc\<close> is decrypted to \<open>a.enc.txt\<close>.
\<close>

theorem default_output_path_witness:
  "opt_output (vals (cli [''encrypt'', ''a.txt''] None None)) = None
   \<and> (\<exists>rest. trace (main stub_lib stub_fs (cli [''encrypt'', ''a.txt''] None None)) =
         EncryptFile ''a.txt'' ''mySecretKey'' ''a.txt.enc'' # rest)
   \<and> (\<exists>rest. trace (main stub_lib stub_fs (cli [''decrypt'', ''a.enc''] None None)) =
         DecryptFile ''a.enc'' ''mySecretKey'' ''a.enc.txt'' # rest)
   \<and> files (final_fs (main stub_lib stub_fs (cli [''encrypt'', ''a.txt''] None None))) ''a.txt.enc''
       = Some ''mySecretKeyhello''
   \<and> files (final_fs (main stub_lib stub_fs (cli [''decrypt'', ''a.enc''] None None))) ''a.enc.txt''
       = Some ''hello''"
proof -
  have f1: "files (final_fs (main stub_lib stub_fs (cli [''encrypt'', ''a.txt''] None None))) ''a.txt.enc''
       = Some ''mySecretKeyhello''"
    by (simp add: main_def cli_def action_def inputFilePath_def encryptionKey_def
        outputFilePath_encrypt_def encryptFile_def fs_readFile_def fs_writeFile_def
        encrypt_text_def stub_lib_def stub_fs_def stub_resolve_def)
  have f2: "files (final_fs (main stub_lib stub_fs (cli [''decrypt'', ''a.enc''] None None))) ''a.enc.txt''
       = Some ''hello''"
    by (simp add: main_def cli_def action_def inputFilePath_def encryptionKey_def
        outputFilePath_decrypt_def decryptFile_def fs_readFile_def fs_writeFile_def
        decrypt_text_def stub_lib_def stub_fs_def stub_resolve_def)
  show ?thesis
    using f1 f2
      default_output_path [of "cli [''encrypt'', ''a.txt''] None None" "''encrypt''" "''a.txt''"
        stub_lib stub_fs]
      default_output_path [of "cli [''decrypt'', ''a.enc''] None None" "''decrypt''" "''a.enc''"
        stub_lib stub_fs]
    by (simp add: cli_simps encryptionKey_def)
qed

text \<open>
  Claim C6. When the key option is omitted, the encrypt action and the decrypt action
  both hand the literal \<open>mySecretKey\<close> to their helper, and every call of the
  library's transform in the run is made with that key: an encryption and a
  decryption with the default key use the same key.
\<close>

theorem default_key_is_shared:
  assumes "opt_key (vals args) = None" and "positionals args = [act, inp]"
  shows
    "(act = ''encrypt'' \<longrightarrow>
        (\<exists>rest. trace (main lib fs args) =
           EncryptFile inp ''mySecretKey'' (outputFilePath_encrypt args) # rest)
        \<and> (\<forall>d k. AesEncrypt d k \<in> set (trace (main lib fs args)) \<longrightarrow> k = ''mySecretKey''))
     \<and> (act = ''decrypt'' \<longrightarrow>
        (\<exists>rest. trace (main lib fs args) =
           DecryptFile inp ''mySecretKey'' (outputFilePath_decrypt args) # rest)
        \<and> (\<forall>d k. AesDecrypt d k \<in> set (trace (main lib fs args)) \<longrightarrow> k = ''mySecretKey''))"
proof -
  have k: "encryptionKey args = ''mySecretKey''"
    using assms(1) by (simp add: encryptionKey_def)
  have enc:
    "(\<exists>rest. trace (main lib fs args) =
        EncryptFile inp ''mySecretKey'' (outputFilePath_encrypt args) # rest)
     \<and> (\<forall>d k. AesEncrypt d k \<in> set (trace (main lib fs args)) \<longrightarrow> k = ''mySecretKey'')"
    if act: "act = ''encrypt''"
  proof -
    from assms(2) act obtain tail where
      tr: "trace (main lib fs args) =
             snd (snd (encryptFile lib fs inp ''mySecretKey'' (outputFilePath_encrypt args))) @ tail"
      and tail: "\<forall>ev \<in> set tail. \<forall>d k. ev \<noteq> AesEncrypt d k"
      using main_encrypt_trace [of args inp lib fs] k by auto
    have "\<exists>rest. trace (main lib fs args) =
            EncryptFile inp ''mySecretKey'' (outputFilePath_encrypt args) # rest"
      using tr encryptFile_first [of lib fs inp "''mySecretKey''" "outputFilePath_encrypt args"]
      by auto
    moreover
    have "\<forall>d k. AesEncrypt d k \<in> set (trace (main lib fs args)) \<longrightarrow> k = ''mySecretKey''"
      using tr tail
        encryptFile_events [of _ lib fs inp "''mySecretKey''" "outputFilePath_encrypt args"]
      by fastforce
    ultimately show ?thesis by simp
  qed
  have dec:
    "(\<exists>rest. trace (main lib fs args) =
        DecryptFile inp ''mySecretKey'' (outputFilePath_decrypt args) # rest)
     \<and> (\<forall>d k. AesDecrypt d k \<in> set (trace (main lib fs args)) \<longrightarrow> k = ''mySecretKey'')"
    if act: "act = ''decrypt''"
  proof -
    from assms(2) act obtain tail where
      tr: "trace (main lib fs args) =
             snd (snd (decryptFile lib fs inp ''mySecretKey'' (outputFilePath_decrypt args))) @ tail"
      and tail: "\<forall>ev \<in> set tail. \<forall>d k. ev \<noteq> AesDecrypt d k"
      using main_decrypt_trace [of args inp lib fs] k by auto
    have "\<exists>rest. trace (main lib fs args) =
            DecryptFile inp ''mySecretKey'' (outputFilePath_decrypt args) # rest"
      using tr decryptFile_first [of lib fs inp "''mySecretKey''" "outputFilePath_decrypt args"]
      by auto
    moreover
    have "\<forall>d k. AesDecrypt d k \<in> set (trace (main lib fs args)) \<longrightarrow> k = ''mySecretKey''"
      using tr tail
        decryptFile_events [of _ lib fs inp "''mySecretKey''" "outputFilePath_decrypt args"]
      by fastforce
    ultimately show ?thesis by simp
  qed
  from enc dec show ?thesis by blast
qed

text \<open>
  A default-key encryption and a default-key decryption.
\<close>

theorem default_key_witness:
  "opt_key (vals (cli [''encrypt'', ''a.txt''] None None)) = None
   \<and> (\<exists>rest. trace (main stub_lib stub_fs (cli [''encrypt'', ''a.txt''] None None)) =
         EncryptFile ''a.txt'' ''mySecretKey'' ''a.txt.enc'' # rest)
   \<and> (\<exists>rest. trace (main stub_lib stub_fs (cli [''decrypt'', ''a.txt.enc''] (Some ''back.txt'') None)) =
         DecryptFile ''a.txt.enc'' ''mySecretKey'' ''back.txt'' # rest)"
  using
    default_key_is_shared [of "cli [''encrypt'', ''a.txt''] None None" "''encrypt''" "''a.txt''"
      stub_lib stub_fs]
    default_key_is_shared [of "cli [''decrypt'', ''a.txt.enc''] (Some ''back.txt'') None"
      "''decrypt''" "''a.txt.enc''" stub_lib stub_fs]
  by (simp add: cli_simps outputFilePath_encrypt_def outputFilePath_decrypt_def inputFilePath_def)

subsection \<open>Failures of the read, the transform and the write\<close>

text \<open>
  Claim C2. In a run with the action \<open>encrypt\<close> or \<open>decrypt\<close> in which the read of
  the input file, the cipher transform or the write of the output file throws
  \<open>e\<close>, the last two things printed are the trace of \<open>e\<close> and the line
  \<open>Failed to encrypt <input>.\<close> (or \<open>Failed to decrypt <input>.\<close>), and the exit
  code is 0.
\<close>

theorem failure_is_reported_and_exit_0:
  assumes "positionals args = [act, inp]"
  shows
    "(act = ''encrypt'' \<and>
        (fs_readFile fs inp = Inl e
         \<or> (\<exists>d. fs_readFile fs inp = Inr d \<and>
               (encrypt_text lib d (encryptionKey args) = Inl e
                \<or> (\<exists>t. encrypt_text lib d (encryptionKey args) = Inr t \<and>
                      fs_writeFile fs (outputFilePath_encrypt args) t = Inl e))))
       \<longrightarrow> exit_code (main lib fs args) = 0 \<and>
           (\<exists>called. trace (main lib fs args) =
              called @ [ConsoleTrace e, ConsoleError (''Failed to encrypt '' @ inp @ ''.'')]))
     \<and> (act = ''decrypt'' \<and>
        (fs_readFile fs inp = Inl e
         \<or> (\<exists>d. fs_readFile fs inp = Inr d \<and>
               (decrypt_text lib d (encryptionKey args) = Inl e
                \<or> (\<exists>t. decrypt_text lib d (encryptionKey args) = Inr t \<and>
                      fs_writeFile fs (outputFilePath_decrypt args) t = Inl e))))
       \<longrightarrow> exit_code (main lib fs args) = 0 \<and>
           (\<exists>called. trace (main lib fs args) =
              called @ [ConsoleTrace e, ConsoleError (''Failed to decrypt '' @ inp @ ''.'')]))"
  using assms
  by (auto simp: main_def action_def inputFilePath_def encryptFile_def decryptFile_def Let_def)

text \<open>
  A missing input file, a text the library refuses, and a write that is refused.
\<close>

theorem failure_is_reported_witness:
  "main stub_lib stub_fs (cli [''encrypt'', ''missing.txt''] None None) =
     \<lparr>exit_code = 0, final_fs = stub_fs,
      trace = [EncryptFile ''missing.txt'' ''mySecretKey'' ''missing.txt.enc'',
               ReadFile ''missing.txt'',
               ConsoleTrace (ENOENT ''missing.txt''),
               ConsoleError ''Failed to encrypt missing.txt.'']\<rparr>
   \<and> exit_code (main stub_lib stub_fs (cli [''decrypt'', ''b.enc''] None None)) = 0
   \<and> (\<exists>called. trace (main stub_lib stub_fs (cli [''decrypt'', ''b.enc''] None None)) =
         called @ [ConsoleTrace (LibraryError ''Malformed UTF-8 data''),
                   ConsoleError ''Failed to decrypt b.enc.''])
   \<and> exit_code (main stub_lib stub_fs (cli [''encrypt'', ''a.txt''] (Some ''ro.txt'') None)) = 0
   \<and> (\<exists>called. trace (main stub_lib stub_fs (cli [''encrypt'', ''a.txt''] (Some ''ro.txt'') None)) =
         called @ [ConsoleTrace (EACCES ''ro.txt''),
                   ConsoleError ''Failed to encrypt a.txt.''])"
proof -
  have p1: "positionals (cli [''decrypt'', ''b.enc''] None None) = [''decrypt'', ''b.enc'']"
    by (simp add: cli_def)
  have p2: "positionals (cli [''encrypt'', ''a.txt''] (Some ''ro.txt'') None) = [''encrypt'', ''a.txt'']"
    by (simp add: cli_def)
  have h1: "fs_readFile stub_fs ''b.enc'' = Inr ''junk''"
    by (simp add: fs_readFile_def stub_fs_def stub_resolve_def)
  have h2: "decrypt_text stub_lib ''junk'' (encryptionKey (cli [''decrypt'', ''b.enc''] None None))
              = Inl (LibraryError ''Malformed UTF-8 data'')"
    by (simp add: decrypt_text_def stub_lib_def encryptionKey_def cli_def)
  have h3: "fs_readFile stub_fs ''a.txt'' = Inr ''hello''"
    by (simp add: fs_readFile_def stub_fs_def stub_resolve_def)
  have h4: "encrypt_text stub_lib ''hello'' (encryptionKey (cli [''encrypt'', ''a.txt''] (Some ''ro.txt'') None))
              = Inr ''mySecretKeyhello''"
    by (simp add: encrypt_text_def stub_lib_def encryptionKey_def cli_def)
  have h5: "fs_writeFile stub_fs (outputFilePath_encrypt (cli [''encrypt'', ''a.txt''] (Some ''ro.txt'') None))
              ''mySecretKeyhello'' = Inl (EACCES ''ro.txt'')"
    by (simp add: fs_writeFile_def stub_fs_def stub_resolve_def outputFilePath_encrypt_def cli_def)
  have m: "main stub_lib stub_fs (cli [''encrypt'', ''missing.txt''] None None) =
     \<lparr>exit_code = 0, final_fs = stub_fs,
      trace = [EncryptFile ''missing.txt'' ''mySecretKey'' ''missing.txt.enc'',
               ReadFile ''missing.txt'',
               ConsoleTrace (ENOENT ''missing.txt''),
               ConsoleError ''Failed to encrypt missing.txt.'']\<rparr>"
    by (simp add: main_def cli_def action_def inputFilePath_def encryptionKey_def
        outputFilePath_encrypt_def encryptFile_def fs_readFile_def stub_fs_def stub_resolve_def)
  show ?thesis
    using m
      failure_is_reported_and_exit_0 [OF p1, of stub_fs "LibraryError ''Malformed UTF-8 data''" stub_lib]
      failure_is_reported_and_exit_0 [OF p2, of stub_fs "EACCES ''ro.txt''" stub_lib]
      h1 h2 h3 h4 h5
    by simp
qed

text \<open>
  Claim C9. If the read of the input file throws, or the transform throws (for
  \<open>decryptFile\<close> this includes the decoding of the result as UTF-8), the helper
  throws the same error without having called \<open>writeFile\<close>, and the store, so also
  the file at the output path, is as it was.
\<close>

theorem failed_read_or_transform_never_writes:
  "((fs_readFile fs inp = Inl e
      \<or> (\<exists>d. fs_readFile fs inp = Inr d \<and> encrypt_text lib d k = Inl e))
     \<longrightarrow> (\<exists>called. encryptFile lib fs inp k out = (Inl e, fs, called)
            \<and> (\<forall>ev \<in> set called. \<not> is_write ev)))
   \<and> ((fs_readFile fs inp = Inl e
      \<or> (\<exists>d. fs_readFile fs inp = Inr d \<and> decrypt_text lib d k = Inl e))
     \<longrightarrow> (\<exists>called. decryptFile lib fs inp k out = (Inl e, fs, called)
            \<and> (\<forall>ev \<in> set called. \<not> is_write ev)))"
  by (auto simp: encryptFile_def decryptFile_def Let_def)

text \<open>
  A missing input file for \<open>encryptFile\<close>, a refused text for \<open>decryptFile\<close>;
  the output path \<open>a.txt\<close> keeps its content.
\<close>

theorem failed_read_or_transform_witness:
  "encryptFile stub_lib stub_fs ''missing.txt'' ''k'' ''a.txt'' =
     (Inl (ENOENT ''missing.txt''), stub_fs,
      [EncryptFile ''missing.txt'' ''k'' ''a.txt'', ReadFile ''missing.txt''])
   \<and> decryptFile stub_lib stub_fs ''b.enc'' ''k'' ''a.txt'' =
     (Inl (LibraryError ''Malformed UTF-8 data''), stub_fs,
      [DecryptFile ''b.enc'' ''k'' ''a.txt'', ReadFile ''b.enc'', AesDecrypt ''junk'' ''k''])
   \<and> files stub_fs ''a.txt'' = Some ''hello''"
proof -
  have r1: "fs_readFile stub_fs ''missing.txt'' = Inl (ENOENT ''missing.txt'')"
    by (simp add: fs_readFile_def stub_fs_def stub_resolve_def)
  have r2: "fs_readFile stub_fs ''b.enc'' = Inr ''junk''"
    by (simp add: fs_readFile_def stub_fs_def stub_resolve_def)
  have t2: "decrypt_text stub_lib ''junk'' ''k'' = Inl (LibraryError ''Malformed UTF-8 data'')"
    by (simp add: decrypt_text_def stub_lib_def)
  have "\<exists>called. encryptFile stub_lib stub_fs ''missing.txt'' ''k'' ''a.txt'' =
          (Inl (ENOENT ''missing.txt''), stub_fs, called)"
    using failed_read_or_transform_never_writes
            [of stub_fs "''missing.txt''" "ENOENT ''missing.txt''" stub_lib "''k''" "''a.txt''"] r1
    by blast
  then have e: "encryptFile stub_lib stub_fs ''missing.txt'' ''k'' ''a.txt'' =
     (Inl (ENOENT ''missing.txt''), stub_fs,
      [EncryptFile ''missing.txt'' ''k'' ''a.txt'', ReadFile ''missing.txt''])"
    by (auto simp: encryptFile_def r1)
  have "\<exists>called. decryptFile stub_lib stub_fs ''b.enc'' ''k'' ''a.txt'' =
          (Inl (LibraryError ''Malformed UTF-8 data''), stub_fs, called)"
    using failed_read_or_transform_never_writes
            [of stub_fs "''b.enc''" "LibraryError ''Malformed UTF-8 data''" stub_lib "''k''" "''a.txt''"]
          r2 t2
    by blast
  then have d: "decryptFile stub_lib stub_fs ''b.enc'' ''k'' ''a.txt'' =
     (Inl (LibraryError ''Malformed UTF-8 data''), stub_fs,
      [DecryptFile ''b.enc'' ''k'' ''a.txt'', ReadFile ''b.enc'', AesDecrypt ''junk'' ''k''])"
    by (auto simp: decryptFile_def r2 t2)
  from e d show ?thesis by (simp add: stub_fs_def stub_resolve_def)
qed

text \<open>
  The same for the dispatcher.
\<close>

lemma failed_invocation_keeps_store:
  assumes "positionals args = [act, inp]"
  shows
    "(act = ''encrypt'' \<and>
        (fs_readFile fs inp = Inl e
         \<or> (\<exists>d. fs_readFile fs inp = Inr d \<and> encrypt_text lib d (encryptionKey args) = Inl e))
       \<longrightarrow> final_fs (main lib fs args) = fs
           \<and> (\<forall>ev \<in> set (trace (main lib fs args)). \<not> is_write ev))
     \<and> (act = ''decrypt'' \<and>
        (fs_readFile fs inp = Inl e
         \<or> (\<exists>d. fs_readFile fs inp = Inr d \<and> decrypt_text lib d (encryptionKey args) = Inl e))
       \<longrightarrow> final_fs (main lib fs args) = fs
           \<and> (\<forall>ev \<in> set (trace (main lib fs args)). \<not> is_write ev))"
  using assms
  by (auto simp: main_def action_def inputFilePath_def encryptFile_def decryptFile_def Let_def)

subsection \<open>One operation, and what it touches\<close>

text \<open>
  Claim C8. In every run at most one helper is called, and exactly one when the
  options pass the checks of \<open>parseArgs\<close>, there are exactly two positional arguments
  and the action, the first of them, is \<open>encrypt\<close> or \<open>decrypt\<close>. No run asks the
  library for both an encryption and a decryption. The only path read is the input
  path; the only file whose content can differ afterwards is the one the output
  path of the action names; nothing else of the file system changes, and a run
  whose options do not parse touches no file at all.
\<close>

theorem exactly_one_operation:
  "length (filter is_operation (trace (app lib fs argv))) \<le> 1
   \<and> (\<forall>args. parseArgs argv = Inr args \<and> length (positionals args) = 2
          \<and> (action args = ''encrypt'' \<or> action args = ''decrypt'')
        \<longrightarrow> length (filter is_operation (trace (app lib fs argv))) = 1)
   \<and> \<not> ((\<exists>d k. AesEncrypt d k \<in> set (trace (app lib fs argv)))
          \<and> (\<exists>d k. AesDecrypt d k \<in> set (trace (app lib fs argv))))
   \<and> (\<forall>args p. parseArgs argv = Inr args \<and> ReadFile p \<in> set (trace (app lib fs argv))
        \<longrightarrow> p = inputFilePath args)
   \<and> (\<forall>e. parseArgs argv = Inl e
        \<longrightarrow> final_fs (app lib fs argv) = fs
            \<and> (\<forall>ev \<in> set (trace (app lib fs argv)). \<not> is_file_access ev))
   \<and> (\<forall>args q. parseArgs argv = Inr args \<and> files (final_fs (app lib fs argv)) q \<noteq> files fs q
        \<longrightarrow> length (positionals args) = 2
            \<and> (action args = ''encrypt'' \<and> q = resolve fs (outputFilePath_encrypt args)
                \<or> action args = ''decrypt'' \<and> q = resolve fs (outputFilePath_decrypt args)))
   \<and> resolve (final_fs (app lib fs argv)) = resolve fs
   \<and> read_fault (final_fs (app lib fs argv)) = read_fault fs
   \<and> write_fault (final_fs (app lib fs argv)) = write_fault fs"
proof (cases "parseArgs argv")
  case (Inl e)
  then have "app lib fs argv = \<lparr>exit_code = 1, final_fs = fs, trace = [Uncaught e]\<rparr>"
    by (rule app_uncaught)
  with Inl show ?thesis by simp
next
  case (Inr args)
  then have app: "app lib fs argv = main lib fs args"
    by (rule app_parsed)
  let ?tr = "trace (main lib fs args)"
  let ?E = "encryptFile lib fs (inputFilePath args) (encryptionKey args) (outputFilePath_encrypt args)"
  let ?D = "decryptFile lib fs (inputFilePath args) (encryptionKey args) (outputFilePath_decrypt args)"
  have ev: "\<And>ev. ev \<in> set ?tr \<Longrightarrow>
     (\<exists>s. ev = ConsoleLog s) \<or> (\<exists>e. ev = ConsoleTrace e) \<or> (\<exists>s. ev = ConsoleError s)
     \<or> (length (positionals args) = 2 \<and> action args = ''encrypt'' \<and> ev \<in> set (snd (snd ?E)))
     \<or> (length (positionals args) = 2 \<and> action args = ''decrypt'' \<and> ev \<in> set (snd (snd ?D)))"
    by (rule main_events)
  have evE: "\<And>ev. ev \<in> set (snd (snd ?E)) \<Longrightarrow>
     ev = EncryptFile (inputFilePath args) (encryptionKey args) (outputFilePath_encrypt args)
     \<or> ev = ReadFile (inputFilePath args)
     \<or> (\<exists>d. ev = AesEncrypt d (encryptionKey args))
     \<or> (\<exists>d. ev = WriteFile (outputFilePath_encrypt args) d)"
    by (rule encryptFile_events)
  have evD: "\<And>ev. ev \<in> set (snd (snd ?D)) \<Longrightarrow>
     ev = DecryptFile (inputFilePath args) (encryptionKey args) (outputFilePath_decrypt args)
     \<or> ev = ReadFile (inputFilePath args)
     \<or> (\<exists>d. ev = AesDecrypt d (encryptionKey args))
     \<or> (\<exists>d. ev = WriteFile (outputFilePath_decrypt args) d)"
    by (rule decryptFile_events)
  have frE: "(\<forall>q. q \<noteq> resolve fs (outputFilePath_encrypt args) \<longrightarrow> files (fst (snd ?E)) q = files fs q)
     \<and> resolve (fst (snd ?E)) = resolve fs \<and> read_fault (fst (snd ?E)) = read_fault fs
     \<and> write_fault (fst (snd ?E)) = write_fault fs"
    by (rule encryptFile_frame [of lib fs _ _ _ "fst ?E" _ "snd (snd ?E)"]) simp
  have frD: "(\<forall>q. q \<noteq> resolve fs (outputFilePath_decrypt args) \<longrightarrow> files (fst (snd ?D)) q = files fs q)
     \<and> resolve (fst (snd ?D)) = resolve fs \<and> read_fault (fst (snd ?D)) = read_fault fs
     \<and> write_fault (fst (snd ?D)) = write_fault fs"
    by (rule decryptFile_frame [of lib fs _ _ _ "fst ?D" _ "snd (snd ?D)"]) simp
  have c1: "length (filter is_operation ?tr) \<le> 1"
    by (simp add: main_operations)
  have c2: "length (positionals args) = 2 \<and> (action args = ''encrypt'' \<or> action args = ''decrypt'')
        \<longrightarrow> length (filter is_operation ?tr) = 1"
    by (auto simp: main_operations)
  have c3: "\<not> ((\<exists>d k. AesEncrypt d k \<in> set ?tr) \<and> (\<exists>d k. AesDecrypt d k \<in> set ?tr))"
  proof
    assume "(\<exists>d k. AesEncrypt d k \<in> set ?tr) \<and> (\<exists>d k. AesDecrypt d k \<in> set ?tr)"
    then obtain d k d' k' where e: "AesEncrypt d k \<in> set ?tr" and d: "AesDecrypt d' k' \<in> set ?tr"
      by blast
    from ev [OF e] evD have "action args = ''encrypt''" by fastforce
    moreover from ev [OF d] evE have "action args = ''decrypt''" by fastforce
    ultimately show False by simp
  qed
  have c4: "\<forall>p. ReadFile p \<in> set ?tr \<longrightarrow> p = inputFilePath args"
    using ev evE evD by fastforce
  have c5: "\<forall>q. files (final_fs (main lib fs args)) q \<noteq> files fs q \<longrightarrow>
          length (positionals args) = 2
          \<and> (action args = ''encrypt'' \<and> q = resolve fs (outputFilePath_encrypt args)
              \<or> action args = ''decrypt'' \<and> q = resolve fs (outputFilePath_decrypt args))"
    using frE frD by (auto simp: main_final_fs split: if_splits)
  have c6: "resolve (final_fs (main lib fs args)) = resolve fs
            \<and> read_fault (final_fs (main lib fs args)) = read_fault fs
            \<and> write_fault (final_fs (main lib fs args)) = write_fault fs"
    using frE frD by (auto simp: main_final_fs split: if_splits)
  from c1 c2 c3 c4 c5 c6 show ?thesis
    unfolding app using Inr by simp
qed

text \<open>
  An encryption and a decryption; the input of the encryption is unchanged.
\<close>

theorem exactly_one_operation_witness:
  "parseArgs [''encrypt'', ''a.txt''] = Inr (cli [''encrypt'', ''a.txt''] None None)
   \<and> filter is_operation (trace (app stub_lib stub_fs [''encrypt'', ''a.txt'']))
       = [EncryptFile ''a.txt'' ''mySecretKey'' ''a.txt.enc'']
   \<and> length (filter is_operation (trace (app stub_lib stub_fs [''encrypt'', ''a.txt'']))) = 1
   \<and> length (filter is_operation (trace (app stub_lib stub_fs [''decrypt'', ''a.enc'']))) = 1
   \<and> files (final_fs (app stub_lib stub_fs [''encrypt'', ''a.txt''])) ''a.txt'' = Some ''hello''"
proof -
  let ?e = "cli [''encrypt'', ''a.txt''] None None"
  let ?d = "cli [''decrypt'', ''a.enc''] None None"
  have pe: "parseArgs [''encrypt'', ''a.txt''] = Inr ?e" by code_simp
  have pd: "parseArgs [''decrypt'', ''a.enc''] = Inr ?d" by code_simp
  have a: "filter is_operation (trace (app stub_lib stub_fs [''encrypt'', ''a.txt'']))
     = [EncryptFile ''a.txt'' ''mySecretKey'' ''a.txt.enc'']"
    by (simp add: app_parsed [OF pe] main_operations cli_simps action_def inputFilePath_def
        encryptionKey_def outputFilePath_encrypt_def)
  have he: "length (positionals ?e) = 2 \<and> (action ?e = ''encrypt'' \<or> action ?e = ''decrypt'')"
    by (simp add: cli_simps action_def)
  have hd: "length (positionals ?d) = 2 \<and> (action ?d = ''encrypt'' \<or> action ?d = ''decrypt'')"
    by (simp add: cli_simps action_def)
  have le: "length (filter is_operation (trace (app stub_lib stub_fs [''encrypt'', ''a.txt'']))) = 1"
    using exactly_one_operation [of stub_lib stub_fs "[''encrypt'', ''a.txt'']"] pe he by blast
  have ld: "length (filter is_operation (trace (app stub_lib stub_fs [''decrypt'', ''a.enc'']))) = 1"
    using exactly_one_operation [of stub_lib stub_fs "[''decrypt'', ''a.enc'']"] pd hd by blast
  have "files (final_fs (app stub_lib stub_fs [''encrypt'', ''a.txt''])) ''a.txt''
          \<noteq> files stub_fs ''a.txt'' \<longrightarrow>
        ''a.txt'' = resolve stub_fs (outputFilePath_encrypt ?e)
        \<or> ''a.txt'' = resolve stub_fs (outputFilePath_decrypt ?e)"
    using exactly_one_operation [of stub_lib stub_fs "[''encrypt'', ''a.txt'']"] pe by blast
  then have f: "files (final_fs (app stub_lib stub_fs [''encrypt'', ''a.txt''])) ''a.txt'' = Some ''hello''"
    by (simp add: outputFilePath_encrypt_def outputFilePath_decrypt_def inputFilePath_def
        cli_simps stub_fs_def stub_resolve_def)
  from pe a le ld f show ?thesis by simp
qed

text \<open>
  The conditions are needed. With the action \<open>encrypt\<close> and three positional
  arguments the count check of line 64 ends the run before the dispatch, and with
  \<open>encrypt a.txt --bogus\<close> the run ends in \<open>parseArgs\<close>: in both no helper is called.
\<close>

theorem action_given_but_no_operation:
  "parseArgs [''encrypt'', ''a.txt'', ''b.txt'']
     = Inr (cli [''encrypt'', ''a.txt'', ''b.txt''] None None)
   \<and> action (cli [''encrypt'', ''a.txt'', ''b.txt''] None None) = ''encrypt''
   \<and> filter is_operation (trace (app stub_lib stub_fs [''encrypt'', ''a.txt'', ''b.txt''])) = []
   \<and> argv_positionals [''encrypt'', ''a.txt'', ''--bogus''] = [''encrypt'', ''a.txt'']
   \<and> filter is_operation (trace (app stub_lib stub_fs [''encrypt'', ''a.txt'', ''--bogus''])) = []"
proof -
  have p3: "parseArgs [''encrypt'', ''a.txt'', ''b.txt'']
     = Inr (cli [''encrypt'', ''a.txt'', ''b.txt''] None None)"
    by code_simp
  have n: "argv_positionals [''encrypt'', ''a.txt'', ''--bogus''] = [''encrypt'', ''a.txt'']"
    by code_simp
  have pb: "parseArgs [''encrypt'', ''a.txt'', ''--bogus'']
     = Inl (ERR_PARSE_ARGS_UNKNOWN_OPTION ''--bogus'')"
    by code_simp
  show ?thesis
    using p3 n
    by (simp add: app_parsed [OF p3] app_uncaught [OF pb] main_operations cli_simps action_def)
qed

text \<open>
  Claim C10. \<open>encryptFile\<close> and \<open>decryptFile\<close> call \<open>writeFile\<close> only at the output
  path, every file but the one the output path names keeps its content, and so
  the input file is unchanged, and reads as before, whenever the output path names
  another file than the input path.
\<close>

theorem input_file_only_read:
  "encryptFile lib fs inp k out = (r, fs', called) \<or> decryptFile lib fs inp k out = (r, fs', called)
   \<Longrightarrow> (\<forall>p d. WriteFile p d \<in> set called \<longrightarrow> p = out)
       \<and> (\<forall>q. q \<noteq> resolve fs out \<longrightarrow> files fs' q = files fs q)
       \<and> (resolve fs out \<noteq> resolve fs inp \<longrightarrow>
             files fs' (resolve fs inp) = files fs (resolve fs inp)
             \<and> fs_readFile fs' inp = fs_readFile fs inp)"
proof -
  assume run: "encryptFile lib fs inp k out = (r, fs', called)
                 \<or> decryptFile lib fs inp k out = (r, fs', called)"
  have writes: "\<forall>p d. WriteFile p d \<in> set called \<longrightarrow> p = out"
  proof (rule disjE [OF run])
    assume "encryptFile lib fs inp k out = (r, fs', called)"
    then have "called = snd (snd (encryptFile lib fs inp k out))" by simp
    then show ?thesis
      using encryptFile_events [of _ lib fs inp k out] by fastforce
  next
    assume "decryptFile lib fs inp k out = (r, fs', called)"
    then have "called = snd (snd (decryptFile lib fs inp k out))" by simp
    then show ?thesis
      using decryptFile_events [of _ lib fs inp k out] by fastforce
  qed
  have frame: "(\<forall>q. q \<noteq> resolve fs out \<longrightarrow> files fs' q = files fs q)
     \<and> resolve fs' = resolve fs \<and> read_fault fs' = read_fault fs
     \<and> write_fault fs' = write_fault fs"
    using run encryptFile_frame [of lib fs inp k out r fs' called]
      decryptFile_frame [of lib fs inp k out r fs' called]
    by blast
  have input: "resolve fs out \<noteq> resolve fs inp \<longrightarrow>
               files fs' (resolve fs inp) = files fs (resolve fs inp)
               \<and> fs_readFile fs' inp = fs_readFile fs inp"
  proof
    assume "resolve fs out \<noteq> resolve fs inp"
    then have "resolve fs inp \<noteq> resolve fs out" by simp
    moreover from frame have "\<forall>q. q \<noteq> resolve fs out \<longrightarrow> files fs' q = files fs q"
      by simp
    ultimately have same: "files fs' (resolve fs inp) = files fs (resolve fs inp)"
      by simp
    from frame have "resolve fs' = resolve fs" and "read_fault fs' = read_fault fs"
      by simp_all
    then have "fs_readFile fs' inp = fs_readFile fs inp"
      using same by (rule fs_readFile_same)
    with same show "files fs' (resolve fs inp) = files fs (resolve fs inp)
               \<and> fs_readFile fs' inp = fs_readFile fs inp"
      by simp
  qed
  from frame have "\<forall>q. q \<noteq> resolve fs out \<longrightarrow> files fs' q = files fs q"
    by simp
  with writes input show ?thesis by simp
qed

text \<open>
  Encrypting \<open>a.txt\<close> to \<open>a.txt.enc\<close>.
\<close>

theorem input_file_only_read_witness:
  "encryptFile stub_lib stub_fs ''a.txt'' ''k'' ''a.txt.enc'' =
     (Inr (), stub_fs\<lparr>files := (files stub_fs)(''a.txt.enc'' \<mapsto> ''khello'')\<rparr>,
      [EncryptFile ''a.txt'' ''k'' ''a.txt.enc'', ReadFile ''a.txt'', AesEncrypt ''hello'' ''k'',
       WriteFile ''a.txt.enc'' ''khello''])
   \<and> resolve stub_fs ''a.txt.enc'' \<noteq> resolve stub_fs ''a.txt''
   \<and> fs_readFile (stub_fs\<lparr>files := (files stub_fs)(''a.txt.enc'' \<mapsto> ''khello'')\<rparr>) ''a.txt''
       = fs_readFile stub_fs ''a.txt''
   \<and> fs_readFile stub_fs ''a.txt'' = Inr ''hello''"
proof -
  have run: "encryptFile stub_lib stub_fs ''a.txt'' ''k'' ''a.txt.enc'' =
     (Inr (), stub_fs\<lparr>files := (files stub_fs)(''a.txt.enc'' \<mapsto> ''khello'')\<rparr>,
      [EncryptFile ''a.txt'' ''k'' ''a.txt.enc'', ReadFile ''a.txt'', AesEncrypt ''hello'' ''k'',
       WriteFile ''a.txt.enc'' ''khello''])"
    by (simp add: encryptFile_def fs_readFile_def fs_writeFile_def encrypt_text_def
        stub_lib_def stub_fs_def stub_resolve_def)
  have ne: "resolve stub_fs ''a.txt.enc'' \<noteq> resolve stub_fs ''a.txt''"
    by (simp add: stub_fs_def stub_resolve_def)
  have "fs_readFile (stub_fs\<lparr>files := (files stub_fs)(''a.txt.enc'' \<mapsto> ''khello'')\<rparr>) ''a.txt''
       = fs_readFile stub_fs ''a.txt''"
    using input_file_only_read [OF disjI1, OF run] ne by blast
  moreover have "fs_readFile stub_fs ''a.txt'' = Inr ''hello''"
    by (simp add: fs_readFile_def stub_fs_def stub_resolve_def)
  ultimately show ?thesis using run ne by simp
qed

text \<open>
  That the two paths differ as strings is not enough. \<open>./a.txt\<close> is another string
  than \<open>a.txt\<close> and names the same file: encrypting \<open>a.txt\<close> to \<open>./a.txt\<close> succeeds
  and leaves the ciphertext in the input file, for the helper alone and for the
  run \<open>encrypt a.txt -o ./a.txt\<close>.
\<close>

theorem other_path_same_file_overwrites_input:
  "''./a.txt'' \<noteq> ''a.txt''
   \<and> fs_readFile stub_fs ''a.txt'' = Inr ''hello''
   \<and> fst (encryptFile stub_lib stub_fs ''a.txt'' ''k'' ''./a.txt'') = Inr ()
   \<and> fs_readFile (fst (snd (encryptFile stub_lib stub_fs ''a.txt'' ''k'' ''./a.txt''))) ''a.txt''
       = Inr ''khello''
   \<and> parseArgs [''encrypt'', ''a.txt'', ''-o'', ''./a.txt'']
       = Inr (cli [''encrypt'', ''a.txt''] (Some ''./a.txt'') None)
   \<and> fs_readFile (final_fs (app stub_lib stub_fs [''encrypt'', ''a.txt'', ''-o'', ''./a.txt''])) ''a.txt''
       = Inr ''mySecretKeyhello''"
proof -
  have p: "parseArgs [''encrypt'', ''a.txt'', ''-o'', ''./a.txt'']
       = Inr (cli [''encrypt'', ''a.txt''] (Some ''./a.txt'') None)"
    by code_simp
  have run: "encryptFile stub_lib stub_fs ''a.txt'' k ''./a.txt'' =
     (Inr (), stub_fs\<lparr>files := (files stub_fs)(''a.txt'' \<mapsto> k @ ''hello'')\<rparr>,
      [EncryptFile ''a.txt'' k ''./a.txt'', ReadFile ''a.txt'', AesEncrypt ''hello'' k,
       WriteFile ''./a.txt'' (k @ ''hello'')])" for k
    by (simp add: encryptFile_def fs_readFile_def fs_writeFile_def encrypt_text_def
        stub_lib_def stub_fs_def stub_resolve_def)
  have rd: "fs_readFile (stub_fs\<lparr>files := (files stub_fs)(''a.txt'' \<mapsto> t)\<rparr>) ''a.txt'' = Inr t" for t
    by (simp add: fs_readFile_def stub_fs_def stub_resolve_def)
  have r0: "fs_readFile stub_fs ''a.txt'' = Inr ''hello''"
    by (simp add: fs_readFile_def stub_fs_def stub_resolve_def)
  show ?thesis
    using p r0
    by (simp add: app_parsed [OF p] main_def cli_simps action_def inputFilePath_def
        encryptionKey_def outputFilePath_encrypt_def run rd)
qed

text \<open>
  A write that throws after the file was opened: the error is thrown, and the
  output file is left empty.
\<close>

lemma failed_write_may_empty_the_output:
  "encryptFile stub_lib stub_fs ''a.txt'' ''k'' ''full.txt'' =
     (Inl (SystemError ''ENOSPC'' ''full.txt''),
      stub_fs\<lparr>files := (files stub_fs)(''full.txt'' \<mapsto> [])\<rparr>,
      [EncryptFile ''a.txt'' ''k'' ''full.txt'', ReadFile ''a.txt'', AesEncrypt ''hello'' ''k'',
       WriteFile ''full.txt'' ''khello''])"
  by (simp add: encryptFile_def fs_readFile_def fs_writeFile_def fs_failed_write_def
      encrypt_text_def stub_lib_def stub_fs_def stub_resolve_def)

subsection \<open>Round trip, relative to the library\<close>

text \<open>
  What the module adds to the library's round trip: when the library decrypts, under
  the same key, the very text it produced to the text it was given, and the
  intermediate and final paths are accessible, \<open>decryptFile\<close> after \<open>encryptFile\<close>
  writes the content of the input file. Whether \<open>crypto-js\<close> has that property is a
  fact about the library, which is not part of this module.
\<close>

lemma encryptFile_then_decryptFile:
  assumes "fs_readFile fs inp = Inr plaintext"
    and "encrypt_text lib plaintext k = Inr ciphertext"
    and "decrypt_text lib ciphertext k = Inr plaintext"
    and "write_fault fs enc = None" and "read_fault fs enc = None" and "write_fault fs out = None"
  shows "\<exists>fs1 called1 fs2 called2.
           encryptFile lib fs inp k enc = (Inr (), fs1, called1)
           \<and> decryptFile lib fs1 enc k out = (Inr (), fs2, called2)
           \<and> files fs1 (resolve fs enc) = Some ciphertext
           \<and> files fs2 (resolve fs out) = Some plaintext"
  using assms
  by (simp add: encryptFile_def decryptFile_def fs_readFile_def fs_writeFile_def Let_def)

text \<open>
  \<open>decryptFile\<close> looks at the decoded text in no way: whatever the library returns for
  the key given, the empty text included, is written, and a throw of the library is
  reported by the dispatcher like any other (see the failures above).
\<close>

lemma decryptFile_writes_what_the_library_returns:
  assumes "fs_readFile fs inp = Inr ciphertext"
    and "decrypt_text lib ciphertext k = Inr t"
    and "write_fault fs out = None"
  shows "decryptFile lib fs inp k out =
           (Inr (), fs\<lparr>files := (files fs)(resolve fs out \<mapsto> t)\<rparr>,
            [DecryptFile inp k out, ReadFile inp, AesDecrypt ciphertext k, WriteFile out t])"
  using assms by (simp add: decryptFile_def fs_writeFile_def)

end
